theory Spec2Isabelle
  imports Main
begin

section \<open>Common data\<close>

text \<open>
  A point in time (Go's \<open>time.Time\<close>) and a duration (\<open>time.Duration\<close>) are counts of
  nanoseconds; a time is the count since a fixed instant. Only differences and comparisons
  of times are used, so the choice of the instant does not matter.
\<close>

type_synonym time = int
type_synonym duration = int

definition Second :: duration where
  "Second = 1000000000"

definition Minute :: duration where
  "Minute = 60 * Second"

definition Hour :: duration where
  "Hour = 60 * Minute"

text \<open>
  Go's \<open>error\<close> values. The two cache errors are the package variables of the source;
  every other error (made by \<open>fmt.Errorf\<close>, or handed back by the database client or the
  status parser) carries its message.
\<close>

datatype error =
    ErrCacheKeyExists
  | ErrCacheKeyDoesNotExist
  | ErrorString string

text \<open>A call of the source either returns or panics.\<close>

datatype 'a outcome = Panicked | Returned 'a

section \<open>The state cache (package sched)\<close>

text \<open>
  The key constraint \<open>cacheableKeys\<close> is the union \<open>DagRun | DagRunTask\<close>; the value
  constraint \<open>cacheableValues\<close> has the one member \<open>DagRunTaskState\<close>. The three structs are
  declared in other files of the package; their fields are those the cache code reads and
  writes (\<open>DagId\<close>, \<open>AtTime\<close>, \<open>TaskId\<close>, \<open>Status\<close>, \<open>StatusUpdateTs\<close>). The status
  enumeration is a type parameter.
\<close>

record DagRun =
  DagId :: string
  AtTime :: time

record DagRunTask =
  DagId_task :: string
  AtTime_task :: time
  TaskId :: string

record 'st DagRunTaskState =
  Status :: 'st
  StatusUpdateTs :: time

datatype cacheableKeys = KeyDagRun DagRun | KeyDagRunTask DagRunTask

text \<open>
  \<open>simpleCache\<close> holds a mutex and the map \<open>data\<close>. Every method takes the lock for its
  whole body, so a method is one atomic step from a map to a map.
\<close>

type_synonym 'st simpleCache = "cacheableKeys \<rightharpoonup> 'st DagRunTaskState"

definition newSimpleCache :: "'st simpleCache" where
  "newSimpleCache = Map.empty"

text \<open>Each method returns its result and the cache after the call.\<close>

definition Add :: "'st simpleCache \<Rightarrow> cacheableKeys \<Rightarrow> 'st DagRunTaskState
    \<Rightarrow> error option \<times> 'st simpleCache" where
  "Add sc key val =
     (case sc key of
        Some _ \<Rightarrow> (Some ErrCacheKeyExists, sc)
      | None \<Rightarrow> (None, sc(key \<mapsto> val)))"

text \<open>
  On a missing key the source returns the zero value of \<open>V\<close> beside the error; the model
  returns the error alone.
\<close>

definition Get :: "'st simpleCache \<Rightarrow> cacheableKeys \<Rightarrow> error + 'st DagRunTaskState" where
  "Get sc key =
     (case sc key of
        Some res \<Rightarrow> Inr res
      | None \<Rightarrow> Inl ErrCacheKeyDoesNotExist)"

definition Remove :: "'st simpleCache \<Rightarrow> cacheableKeys \<Rightarrow> 'st simpleCache" where
  "Remove sc key = sc(key := None)"

definition Update :: "'st simpleCache \<Rightarrow> cacheableKeys \<Rightarrow> 'st DagRunTaskState
    \<Rightarrow> error option \<times> 'st simpleCache" where
  "Update sc key newVal =
     (case sc key of
        Some _ \<Rightarrow> (None, sc(key \<mapsto> newVal))
      | None \<Rightarrow> (Some ErrCacheKeyDoesNotExist, sc))"

text \<open>
  The database client, the status parser and the two timestamp conversions of package
  \<open>timeutils\<close> are defined in other packages and are parameters, bundled in a record:
  \<^item> \<open>ReadDagRunTaskStatus\<close> returns the status string and the status update timestamp,
    or an error;
  \<^item> \<open>stringToDagRunTaskStatus\<close> returns the status, or an error;
  \<^item> \<open>ToString\<close> formats a time;
  \<^item> \<open>FromStringMust\<close> has no error result: it returns a time or panics.
\<close>

record 'st collaborators =
  ReadDagRunTaskStatus :: "string \<Rightarrow> string \<Rightarrow> string \<Rightarrow> error + (string \<times> string)"
  stringToDagRunTaskStatus :: "string \<Rightarrow> error + 'st"
  ToString :: "time \<Rightarrow> string"
  FromStringMust :: "string \<Rightarrow> time outcome"

text \<open>
  \<open>PullFromDatabase\<close> does not hold the lock across its calls of \<open>Get\<close>, \<open>Add\<close> and
  \<open>Update\<close>: each of them takes and releases it. So other goroutines can change the
  cache between the \<open>Get\<close> of a call and its \<open>Add\<close> or \<open>Update\<close>; the parameter \<open>others\<close>
  is what they do to the cache there (the identity when no other goroutine runs). The
  cache given is the one the \<open>Get\<close> reads; the cache returned is the one after the last
  access of the call. The type assertion \<open>any(v).(V)\<close> cannot fail, \<open>DagRunTaskState\<close>
  being the only value type.
\<close>

definition ErrUnsupportedKeyType :: error where
  "ErrUnsupportedKeyType = ErrorString ''unsupported key type given in PullFromDatabase''"

definition PullFromDatabase :: "'st collaborators \<Rightarrow> ('st simpleCache \<Rightarrow> 'st simpleCache)
    \<Rightarrow> 'st simpleCache \<Rightarrow> cacheableKeys \<Rightarrow> (error option) outcome \<times> 'st simpleCache" where
  "PullFromDatabase dbClient others sc key =
     (case key of
        KeyDagRunTask obj \<Rightarrow>
          (case ReadDagRunTaskStatus dbClient (DagId_task obj)
                  (ToString dbClient (AtTime_task obj)) (TaskId obj) of
             Inl err \<Rightarrow> (Returned (Some err), sc)
           | Inr (statusStr, statusUpdateTs) \<Rightarrow>
               (case stringToDagRunTaskStatus dbClient statusStr of
                  Inl sErr \<Rightarrow> (Returned (Some sErr), sc)
                | Inr status \<Rightarrow>
                    (case FromStringMust dbClient statusUpdateTs of
                       Panicked \<Rightarrow> (Panicked, sc)
                     | Returned ts \<Rightarrow>
                         (let v = \<lparr>Status = status, StatusUpdateTs = ts\<rparr> in
                          (case Get sc key of
                             Inl getErr \<Rightarrow>
                               (if getErr = ErrCacheKeyDoesNotExist
                                then (case Add (others sc) key v of
                                        (e, sc') \<Rightarrow> (Returned e, sc'))
                                else (case Update (others sc) key v of
                                        (e, sc') \<Rightarrow> (Returned e, sc')))
                           | Inr _ \<Rightarrow>
                               (case Update (others sc) key v of
                                  (e, sc') \<Rightarrow> (Returned e, sc')))))))
      | KeyDagRun _ \<Rightarrow> (Returned (Some ErrUnsupportedKeyType), sc))"

text \<open>
  Concrete values for the examples: a task key, a run key, two states, and database
  clients that answer every read the same way. The status type of the examples is
  \<open>string\<close>, parsed by accepting the four status names of the scheduler.
\<close>

definition exampleTask :: cacheableKeys where
  "exampleTask = KeyDagRunTask \<lparr>DagId_task = ''mock_dag'', AtTime_task = 0, TaskId = ''t1''\<rparr>"

definition exampleRun :: cacheableKeys where
  "exampleRun = KeyDagRun \<lparr>DagId = ''mock_dag'', AtTime = 0\<rparr>"

definition stateRunning :: "string DagRunTaskState" where
  "stateRunning = \<lparr>Status = ''RUNNING'', StatusUpdateTs = 5\<rparr>"

definition stateSuccess :: "string DagRunTaskState" where
  "stateSuccess = \<lparr>Status = ''SUCCESS'', StatusUpdateTs = 7\<rparr>"

definition exampleParse :: "string \<Rightarrow> error + string" where
  "exampleParse s =
     (if s \<in> {''SCHEDULED'', ''RUNNING'', ''SUCCESS'', ''FAILED''} then Inr s
      else Inl (ErrorString ''invalid status''))"

definition exampleFromString :: "string \<Rightarrow> time outcome" where
  "exampleFromString s = (if s = ''ts7'' then Returned 7 else Panicked)"

definition exampleClient :: "error + (string \<times> string) \<Rightarrow> string collaborators" where
  "exampleClient row =
     \<lparr>ReadDagRunTaskStatus = (\<lambda>dagId execTs taskId. row),
      stringToDagRunTaskStatus = exampleParse,
      ToString = (\<lambda>t. ''ts''),
      FromStringMust = exampleFromString\<rparr>"

section \<open>The DAG (package dag)\<close>

text \<open>
  \<open>Attr\<close> has a boolean and a slice of strings. A nil slice and an empty slice are
  different values (they serialise differently), so \<open>Tags\<close> is optional: \<open>None\<close> is the
  nil slice of the zero value \<open>Attr{}\<close>.
\<close>

record Attr =
  CatchUp :: bool
  Tags :: "string list option"

text \<open>
  \<open>Dag\<close> holds an identifier, a pointer to a \<open>Schedule\<close> (nil when the DAG has none), the
  attributes and a pointer to the root \<open>Node\<close> (nil when the DAG has no tasks). The
  interface \<open>Schedule\<close> and the struct \<open>Node\<close> are declared in other files of the
  package; they are the type parameters \<open>'sched\<close> and \<open>'node\<close>.
\<close>

record ('sched, 'node) Dag =
  Id_dag :: string
  Schedule :: "'sched option"
  Attr :: Attr
  Root :: "'node option"

text \<open>The builder. \<open>New\<close> leaves every field but the identifier at its zero value.\<close>

definition New :: "string \<Rightarrow> ('sched, 'node) Dag" where
  "New ident = \<lparr>Id_dag = ident, Schedule = None, Attr = \<lparr>CatchUp = False, Tags = None\<rparr>,
             Root = None\<rparr>"

definition AddRoot :: "('sched, 'node) Dag \<Rightarrow> 'node option \<Rightarrow> ('sched, 'node) Dag" where
  "AddRoot d node = d\<lparr>Root := node\<rparr>"

definition AddSchedule :: "('sched, 'node) Dag \<Rightarrow> 'sched \<Rightarrow> ('sched, 'node) Dag" where
  "AddSchedule d sched = d\<lparr>Schedule := Some sched\<rparr>"

definition AddAttributes :: "('sched, 'node) Dag \<Rightarrow> Attr \<Rightarrow> ('sched, 'node) Dag" where
  "AddAttributes d attr = d\<lparr>Attr := attr\<rparr>"

definition Done :: "('sched, 'node) Dag \<Rightarrow> ('sched, 'node) Dag" where
  "Done d = d"

text \<open>
  What the two hash functions call in libraries and other files is a parameter, bundled in a
  record: \<open>json.Marshal\<close> on the attributes (bytes or an error), the methods \<open>String\<close> and
  \<open>StartTime\<close> of the schedule, \<open>timeutils.ToString\<close>, the SHA-256 digest of a byte
  string, \<open>hex.EncodeToString\<close>, and the method \<open>Hash\<close> of the root node.
\<close>

record ('sched, 'node) hashing =
  json_Marshal :: "Attr \<Rightarrow> error + string"
  String_sched :: "'sched \<Rightarrow> string"
  StartTime_sched :: "'sched \<Rightarrow> time"
  timeutils_ToString :: "time \<Rightarrow> string"
  sha256_Sum :: "string \<Rightarrow> string"
  hex_EncodeToString :: "string \<Rightarrow> string"
  Hash_node :: "'node \<Rightarrow> string"

text \<open>
  A \<open>sha256\<close> hasher is the bytes written to it so far; \<open>Sum(nil)\<close> is the digest of
  them all.
\<close>

type_synonym hasher = string

definition sha256_New :: hasher where
  "sha256_New = []"

definition Write :: "hasher \<Rightarrow> string \<Rightarrow> hasher" where
  "Write hasher bytes = hasher @ bytes"

definition Sum_nil :: "('sched, 'node) hashing \<Rightarrow> hasher \<Rightarrow> string" where
  "Sum_nil h hasher = sha256_Sum h hasher"

text \<open>A line written by \<open>slog.Error\<close>: the message, the attributes and the error.\<close>

datatype logLine = LogError string Attr error

text \<open>
  \<open>HashDagMeta\<close> has the one result, a string. The model returns it together with the
  lines the call logs.
\<close>

definition HashDagMeta :: "('sched, 'node) hashing \<Rightarrow> ('sched, 'node') Dag
    \<Rightarrow> string \<times> logLine list" where
  "HashDagMeta h d =
     (case json_Marshal h (Attr d) of
        Inl jErr \<Rightarrow>
          (''CANNOT SERIALIZE DAG ATTRIBUTES'',
           [LogError ''Cannot serialize DAG attributes'' (Attr d) jErr])
      | Inr attrJson \<Rightarrow>
          (let (sched, startTsStr) =
                 (case Schedule d of
                    None \<Rightarrow> ([], [])
                  | Some s \<Rightarrow> (String_sched h s,
                               timeutils_ToString h (StartTime_sched h s)));
               hasher = sha256_New;
               hasher = Write hasher attrJson;
               hasher = Write hasher sched;
               hasher = Write hasher startTsStr
           in (hex_EncodeToString h (Sum_nil h hasher), [])))"

definition HashTasks :: "('sched, 'node) hashing \<Rightarrow> ('sched', 'node) Dag \<Rightarrow> string" where
  "HashTasks h d =
     (case Root d of
        None \<Rightarrow>
          (let hasher = sha256_New;
               hasher = Write hasher ''NO TASKS''
           in hex_EncodeToString h (Sum_nil h hasher))
      | Some root \<Rightarrow> Hash_node h root)"

text \<open>
  Concrete values for the examples. The example schedule is a pair of an interval and a
  start; the example node is a task identifier. \<open>exampleHashing\<close> stands in for the
  library functions (its digest is not SHA-256; the properties below hold for every
  choice). Its \<open>json.Marshal\<close> never fails, as \<open>encoding/json\<close> never does on a struct
  of a boolean and a slice of strings.
\<close>

definition exampleMarshal :: "Attr \<Rightarrow> error + string" where
  "exampleMarshal a =
     Inr ((if CatchUp a then ''{catchUp:true,tags:'' else ''{catchUp:false,tags:'')
          @ (case Tags a of None \<Rightarrow> ''null'' | Some ts \<Rightarrow> ''['' @ concat ts @ '']'')
          @ ''}'')"

definition exampleHashing :: "(duration \<times> time, string) hashing" where
  "exampleHashing =
     \<lparr>json_Marshal = exampleMarshal,
      String_sched = (\<lambda>s. if fst s = 3600000000000 then ''hourly'' else ''other''),
      StartTime_sched = snd,
      timeutils_ToString = (\<lambda>t. if t = 0 then ''T0'' else ''T''),
      sha256_Sum = rev,
      hex_EncodeToString = (\<lambda>bytes. ''0x'' @ bytes),
      Hash_node = (\<lambda>n. ''hash of '' @ n)\<rparr>"

section \<open>The scheduling algorithm (package sched)\<close>

text \<open>
  The scheduling functions, the fixed schedule's methods, the run queue and the database
  client's run table are missing from the sources at hand; their tests are there. What
  follows is modelled from the specification.
\<close>

text \<open>
  Modelled from the spec: the struct \<open>FixedSchedule\<close> of package \<open>dag\<close> is missing; the
  tests build it from the two fields \<open>Interval\<close> and \<open>Start\<close>.
\<close>

record FixedSchedule =
  Interval :: duration
  Start :: time

text \<open>
  Modelled from the spec: the method \<open>StartTime\<close> of \<open>FixedSchedule\<close> is missing; by the
  spec the start time is fixed, and it is the \<open>Start\<close> the occurrences count from.
\<close>

definition StartTime :: "FixedSchedule \<Rightarrow> time" where
  "StartTime sched = Start sched"

text \<open>
  Modelled from the spec: the code that computes the occurrences of a \<open>FixedSchedule\<close> is
  missing; by the spec they are \<open>Start + n * Interval\<close> for \<open>n = 0, 1, 2, ...\<close>.
\<close>

definition occurrence :: "FixedSchedule \<Rightarrow> nat \<Rightarrow> time" where
  "occurrence sched n = Start sched + int n * Interval sched"

text \<open>
  Modelled from the spec: the database client's table of DAG runs is missing. The table
  is the list of its rows, the most recently recorded first; a row is a \<open>DagRun\<close> (the
  client keeps the run's time as a string in the canonical format, which the model does
  not distinguish from the time).
\<close>

record Client =
  dagruns :: "DagRun list"

text \<open>
  Modelled from the spec: \<open>NewInMemoryClient\<close> is missing; the tests start from it as an
  empty database.
\<close>

definition NewInMemoryClient :: Client where
  "NewInMemoryClient = \<lparr>dagruns = []\<rparr>"

text \<open>
  Modelled from the spec: \<open>InsertDagRun\<close> is missing; it fails when the run is recorded
  already and records it otherwise. (Other storage errors are not modelled.)
\<close>

definition InsertDagRun :: "Client \<Rightarrow> string \<Rightarrow> time \<Rightarrow> error option \<times> Client" where
  "InsertDagRun c dagId atTime =
     (if \<lparr>DagId = dagId, AtTime = atTime\<rparr> \<in> set (dagruns c)
      then (Some (ErrorString ''dag run already exists''), c)
      else (None, c\<lparr>dagruns := \<lparr>DagId = dagId, AtTime = atTime\<rparr> # dagruns c\<rparr>))"

text \<open>
  Modelled from the spec: \<open>ReadDagRuns\<close> is missing; it returns at most \<open>limit\<close> runs of
  the DAG, the most recent first.
\<close>

definition ReadDagRuns :: "Client \<Rightarrow> string \<Rightarrow> nat \<Rightarrow> DagRun list" where
  "ReadDagRuns c dagId limit = take limit (filter (\<lambda>r. DagId r = dagId) (dagruns c))"

text \<open>
  Modelled from the spec: \<open>Count\<close> is missing; on the table \<open>dagruns\<close> it is the number of
  rows.
\<close>

definition Count_dagruns :: "Client \<Rightarrow> nat" where
  "Count_dagruns c = length (dagruns c)"

text \<open>
  Modelled from the spec: the queue \<open>SimpleQueue\<close> of package \<open>ds\<close> is missing; it is a
  bounded first-in first-out buffer with a capacity fixed at construction.
\<close>

record 'a SimpleQueue =
  items :: "'a list"
  capacity :: nat

text \<open>Modelled from the spec: \<open>NewSimpleQueue\<close> is missing; the new queue is empty.\<close>

definition NewSimpleQueue :: "nat \<Rightarrow> 'a SimpleQueue" where
  "NewSimpleQueue n = \<lparr>items = [], capacity = n\<rparr>"

text \<open>
  Modelled from the spec: \<open>Push\<close> (\<open>Put\<close>) is missing; it fails on a full queue and
  appends at the end otherwise.
\<close>

definition Push :: "'a SimpleQueue \<Rightarrow> 'a \<Rightarrow> error option \<times> 'a SimpleQueue" where
  "Push q x =
     (if capacity q \<le> length (items q) then (Some (ErrorString ''queue is full''), q)
      else (None, q\<lparr>items := items q @ [x]\<rparr>))"

text \<open>
  Modelled from the spec: \<open>Pop\<close> is missing; it fails on an empty queue and takes the
  first item otherwise.
\<close>

definition Pop :: "'a SimpleQueue \<Rightarrow> (error + 'a) \<times> 'a SimpleQueue" where
  "Pop q =
     (case items q of
        [] \<Rightarrow> (Inl (ErrorString ''queue is empty''), q)
      | x # xs \<Rightarrow> (Inr x, q\<lparr>items := xs\<rparr>))"

text \<open>Modelled from the spec: \<open>Size\<close> is missing; it is the current occupancy.\<close>

definition Size :: "'a SimpleQueue \<Rightarrow> nat" where
  "Size q = length (items q)"

text \<open>
  Modelled from the spec: the code that finds the next due time of a DAG without
  \<open>CatchUp\<close> is missing; by the spec it is the most recent occurrence of the schedule that
  is at or before the current time and strictly after the last recorded run. The spec
  names no due time when there is no such occurrence, and the model then gives none. The
  most recent occurrence is computed by arithmetic, which is meant for a positive
  \<open>Interval\<close>.
\<close>

definition skipAhead_spec :: "FixedSchedule \<Rightarrow> time \<Rightarrow> time \<Rightarrow> time option" where
  "skipAhead_spec sched lastRun currentTime =
     (let latest = Start sched + ((currentTime - Start sched) div Interval sched) * Interval sched
      in if Start sched \<le> currentTime \<and> lastRun < latest then Some latest else None)"

text \<open>
  Modelled from the spec: \<open>nextScheduleForDagRuns\<close> (the spec's \<open>computeNextSchedule\<close>) is
  missing. \<open>nextScheduleForDag\<close> is its rule for one DAG:
  \<^item> a DAG without a schedule has no next due time;
  \<^item> a DAG with no recorded run is due at the schedule's start time;
  \<^item> with \<open>CatchUp\<close>, the next due time is the last recorded run's time plus one interval;
  \<^item> without \<open>CatchUp\<close>, the next due time is the most recent occurrence at or before the
    current time and strictly after the last recorded run.
\<close>

definition nextScheduleForDag :: "Client \<Rightarrow> time \<Rightarrow> (FixedSchedule, 'node) Dag
    \<Rightarrow> time option" where
  "nextScheduleForDag c currentTime d =
     (case Schedule d of
        None \<Rightarrow> None
      | Some sched \<Rightarrow>
          (case ReadDagRuns c (Id_dag d) 1 of
             [] \<Rightarrow> Some (StartTime sched)
           | latestDagRun # _ \<Rightarrow>
               (if CatchUp (Attr d) then Some (AtTime latestDagRun + Interval sched)
                else skipAhead_spec sched (AtTime latestDagRun) currentTime)))"

text \<open>
  Modelled from the spec: \<open>nextScheduleForDagRuns\<close> is missing; it maps the identifier of
  every given DAG to its next due time (nil for a DAG without a schedule).
\<close>

definition nextScheduleForDagRuns :: "(FixedSchedule, 'node) Dag list \<Rightarrow> time \<Rightarrow> Client
    \<Rightarrow> (string \<rightharpoonup> time option)" where
  "nextScheduleForDagRuns dags currentTime c =
     foldl (\<lambda>dagSchedules d. dagSchedules(Id_dag d \<mapsto> nextScheduleForDag c currentTime d))
       Map.empty dags"

text \<open>
  Modelled from the spec: \<open>shouldBeSheduled\<close> is missing. It fires when the map holds a
  non-nil due time for the DAG and the current time is at or after it. On firing it
  returns the due time and advances the entry by one interval of the DAG's schedule (for
  a DAG without a schedule, about which the spec is silent, the entry becomes nil). The
  result is the pair (fire, due time) and the map after the call; the spec names no due
  time for a call that does not fire.
\<close>

definition shouldBeSheduled :: "(FixedSchedule, 'node) Dag \<Rightarrow> (string \<rightharpoonup> time option) \<Rightarrow> time
    \<Rightarrow> (bool \<times> time option) \<times> (string \<rightharpoonup> time option)" where
  "shouldBeSheduled d nextSchedules currentTime =
     (case nextSchedules (Id_dag d) of
        None \<Rightarrow> ((False, None), nextSchedules)
      | Some None \<Rightarrow> ((False, None), nextSchedules)
      | Some (Some nextSched) \<Rightarrow>
          (if currentTime < nextSched then ((False, None), nextSchedules)
           else ((True, Some nextSched),
                 nextSchedules(Id_dag d \<mapsto>
                   map_option (\<lambda>sched. nextSched + Interval sched) (Schedule d)))))"

text \<open>
  Modelled from the spec: \<open>tryScheduleDag\<close> is missing. It calls \<open>shouldBeSheduled\<close>; when
  that fires it records the run (the DAG's identifier, the due time) in the store and
  pushes the same run onto the queue. It reports the store's error; the model does not
  push a run the store refused, and does not report an error of the push (the spec names
  the store's error only). The result is the error, the queue, the map and the store
  after the call.
\<close>

definition tryScheduleDag :: "(FixedSchedule, 'node) Dag \<Rightarrow> time \<Rightarrow> DagRun SimpleQueue
    \<Rightarrow> (string \<rightharpoonup> time option) \<Rightarrow> Client
    \<Rightarrow> error option \<times> DagRun SimpleQueue \<times> (string \<rightharpoonup> time option) \<times> Client" where
  "tryScheduleDag d currentTime queue nextSchedules c =
     (case shouldBeSheduled d nextSchedules currentTime of
        ((True, Some dueAt), nextSchedules') \<Rightarrow>
          (case InsertDagRun c (Id_dag d) dueAt of
             (Some iErr, c') \<Rightarrow> (Some iErr, queue, nextSchedules', c')
           | (None, c') \<Rightarrow>
               (None, snd (Push queue \<lparr>DagId = Id_dag d, AtTime = dueAt\<rparr>), nextSchedules', c'))
      | (_, nextSchedules') \<Rightarrow> (None, queue, nextSchedules', c))"

subsection \<open>The fixtures of the scheduler's tests\<close>

text \<open>
  \<open>time.Date(2023, time.October, day, hour, min, sec, 0, time.UTC)\<close>, counted from the
  start of October 2023.
\<close>

definition Date_2023_October :: "int \<Rightarrow> int \<Rightarrow> int \<Rightarrow> int \<Rightarrow> time" where
  "Date_2023_October day hour minute sec =
     (day - 1) * 24 * Hour + hour * Hour + minute * Minute + sec * Second"

text \<open>\<open>emptyDag\<close> of the tests.\<close>

definition emptyDag :: "string \<Rightarrow> 'sched \<Rightarrow> Attr \<Rightarrow> ('sched, 'node) Dag" where
  "emptyDag dagId sched attr = Done (AddAttributes (AddSchedule (New dagId) sched) attr)"

text \<open>
  The loop of \<open>TestNextScheduleForDagRunsSimple\<close> that records \<open>dagRuns\<close> runs, one per
  hour from \<open>startTs\<close> on. (The test reports an error of an insert and goes on.)
\<close>

primrec insertHourlyDagRuns :: "Client \<Rightarrow> string \<Rightarrow> time \<Rightarrow> nat \<Rightarrow> Client" where
  "insertHourlyDagRuns c dagId startTs 0 = c"
| "insertHourlyDagRuns c dagId startTs (Suc i) =
     snd (InsertDagRun (insertHourlyDagRuns c dagId startTs i) dagId (startTs + int i * Hour))"

text \<open>
  The loop of \<open>TestTryScheduleDagSimple\<close> over its time points: it calls \<open>tryScheduleDag\<close>
  at each of them on the same queue, map and store, and collects the errors.
\<close>

fun tryScheduleDagAt :: "(FixedSchedule, 'node) Dag \<Rightarrow> time list
    \<Rightarrow> DagRun SimpleQueue \<times> (string \<rightharpoonup> time option) \<times> Client
    \<Rightarrow> error option list \<times> DagRun SimpleQueue \<times> (string \<rightharpoonup> time option) \<times> Client" where
  "tryScheduleDagAt d [] state = ([], state)"
| "tryScheduleDagAt d (currTime # timePoints) (queue, nextSchedules, c) =
     (case tryScheduleDag d currTime queue nextSchedules c of
        (err, state') \<Rightarrow>
          (case tryScheduleDagAt d timePoints state' of
             (errs, state'') \<Rightarrow> (err # errs, state'')))"

definition timePoints_TestTryScheduleDagSimple :: "time list" where
  "timePoints_TestTryScheduleDagSimple =
     [Date_2023_October 5 13 0 0,
      Date_2023_October 5 14 0 1,
      Date_2023_October 5 14 59 59,
      Date_2023_October 5 15 1 1,
      Date_2023_October 5 15 2 0,
      Date_2023_October 5 16 30 0]"

section \<open>Properties of the state cache\<close>

text \<open>
  C7. For every cache, key and value: on an absent key \<open>Add\<close> succeeds and a following
  \<open>Get\<close> returns exactly the value added; on a present key \<open>Add\<close> fails with the
  key-exists error and the stored value stays; \<open>Get\<close> and \<open>Update\<close> on an absent key fail
  with the key-not-found error (and \<open>Update\<close> leaves the cache as it was); \<open>Remove\<close> on an
  absent key leaves the cache unchanged.
\<close>

theorem cache_add_get_update_remove:
  "(sc k = None \<longrightarrow>
      fst (Add sc k v) = None \<and> Get (snd (Add sc k v)) k = Inr v)
   \<and> (sc k = Some w \<longrightarrow>
      Add sc k v = (Some ErrCacheKeyExists, sc) \<and> Get (snd (Add sc k v)) k = Inr w)
   \<and> (sc k = None \<longrightarrow>
      Get sc k = Inl ErrCacheKeyDoesNotExist
      \<and> Update sc k v = (Some ErrCacheKeyDoesNotExist, sc)
      \<and> Remove sc k = sc)"
  by (auto simp: Add_def Get_def Update_def Remove_def)

theorem cache_add_get_update_remove_witness:
  "Get (snd (Add newSimpleCache exampleTask stateRunning)) exampleTask = Inr stateRunning
   \<and> Add [exampleTask \<mapsto> stateSuccess] exampleTask stateRunning
       = (Some ErrCacheKeyExists, [exampleTask \<mapsto> stateSuccess])
   \<and> Get (snd (Add [exampleTask \<mapsto> stateSuccess] exampleTask stateRunning)) exampleTask
       = Inr stateSuccess
   \<and> Get (newSimpleCache :: string simpleCache) exampleTask = Inl ErrCacheKeyDoesNotExist
   \<and> Update newSimpleCache exampleTask stateRunning
       = (Some ErrCacheKeyDoesNotExist, newSimpleCache)
   \<and> Remove (newSimpleCache :: string simpleCache) exampleTask = newSimpleCache"
  using cache_add_get_update_remove
          [of newSimpleCache exampleTask stateRunning stateSuccess]
        cache_add_get_update_remove
          [of "[exampleTask \<mapsto> stateSuccess]" exampleTask stateRunning stateSuccess]
  by (simp add: newSimpleCache_def Get_def)




text \<open>
  C10. When the store read succeeds and the status string parses, but the conversion of
  the status update timestamp panics (\<open>FromStringMust\<close> has no error result, so a
  timestamp it cannot parse makes it panic), \<open>PullFromDatabase\<close> panics: it returns no
  error value at all, and the cache is as before. A failing status parse, in contrast, is
  returned as an error. This holds whatever other goroutines do.
\<close>

theorem PullFromDatabase_timestamp_panics:
  "(ReadDagRunTaskStatus dbClient (DagId_task obj) (ToString dbClient (AtTime_task obj))
        (TaskId obj) = Inr (statusStr, statusUpdateTs)
      \<and> stringToDagRunTaskStatus dbClient statusStr = Inr status
      \<and> FromStringMust dbClient statusUpdateTs = Panicked \<longrightarrow>
    PullFromDatabase dbClient others sc (KeyDagRunTask obj) = (Panicked, sc)
    \<and> (\<forall>e. fst (PullFromDatabase dbClient others sc (KeyDagRunTask obj)) \<noteq> Returned e))
   \<and> (ReadDagRunTaskStatus dbClient (DagId_task obj) (ToString dbClient (AtTime_task obj))
        (TaskId obj) = Inr (statusStr, statusUpdateTs)
      \<and> stringToDagRunTaskStatus dbClient statusStr = Inl sErr \<longrightarrow>
    fst (PullFromDatabase dbClient others sc (KeyDagRunTask obj)) = Returned (Some sErr))"
  by (simp add: PullFromDatabase_def)

theorem PullFromDatabase_timestamp_panics_witness:
  "PullFromDatabase (exampleClient (Inr (''SUCCESS'', ''2023-10-05''))) id
       [exampleRun \<mapsto> stateRunning] exampleTask
     = (Panicked, [exampleRun \<mapsto> stateRunning])
   \<and> fst (PullFromDatabase (exampleClient (Inr (''DONE'', ''2023-10-05''))) id
            [exampleRun \<mapsto> stateRunning] exampleTask)
     = Returned (Some (ErrorString ''invalid status''))"
  using PullFromDatabase_timestamp_panics
          [where dbClient = "exampleClient (Inr (''SUCCESS'', ''2023-10-05''))"
             and obj = "\<lparr>DagId_task = ''mock_dag'', AtTime_task = 0, TaskId = ''t1''\<rparr>"
             and statusStr = "''SUCCESS''" and statusUpdateTs = "''2023-10-05''"
             and status = "''SUCCESS''" and others = id
             and sc = "[exampleRun \<mapsto> stateRunning]"]
        PullFromDatabase_timestamp_panics
          [where dbClient = "exampleClient (Inr (''DONE'', ''2023-10-05''))"
             and obj = "\<lparr>DagId_task = ''mock_dag'', AtTime_task = 0, TaskId = ''t1''\<rparr>"
             and statusStr = "''DONE''" and statusUpdateTs = "''2023-10-05''"
             and others = id and sc = "[exampleRun \<mapsto> stateRunning]"
             and sErr = "ErrorString ''invalid status''"]
  by (simp add: exampleClient_def exampleTask_def exampleParse_def exampleFromString_def)

section \<open>Properties of the DAG hashes\<close>

text \<open>
  Whenever \<open>json.Marshal\<close> returns the bytes of the attributes, \<open>HashDagMeta\<close> returns the
  hex encoding of the digest of these bytes, the schedule's string and its start time (both
  empty without a schedule), and logs nothing.
\<close>

lemma HashDagMeta_digest:
  "json_Marshal h (Attr d) = Inr attrJson \<Longrightarrow>
   HashDagMeta h d
     = (hex_EncodeToString h (sha256_Sum h
          (attrJson
           @ (case Schedule d of None \<Rightarrow> [] | Some s \<Rightarrow> String_sched h s)
           @ (case Schedule d of None \<Rightarrow> []
              | Some s \<Rightarrow> timeutils_ToString h (StartTime_sched h s)))), [])"
  by (simp add: HashDagMeta_def sha256_New_def Write_def Sum_nil_def split: option.splits)

text \<open>
  C8. Two DAGs with equal attributes and equal schedules (both may have none) have the
  same \<open>HashDagMeta\<close>, whatever their identifiers and task trees are; in particular the
  order of the builder steps and the root given to \<open>AddRoot\<close> do not matter.
\<close>

theorem HashDagMeta_depends_on_attr_and_schedule:
  "(Attr d1 = Attr d2 \<and> Schedule d1 = Schedule d2 \<longrightarrow> HashDagMeta h d1 = HashDagMeta h d2)
   \<and> HashDagMeta h (Done (AddAttributes (AddSchedule (AddRoot (New i1) r1) s) a))
     = HashDagMeta h (Done (AddRoot (AddSchedule (AddAttributes (New i2) a) s) r2))
   \<and> HashDagMeta h (Done (AddAttributes (AddRoot (New i1) r1) a))
     = HashDagMeta h (Done (AddRoot (AddAttributes (New i2) a) r2))"
  by (simp add: HashDagMeta_def Done_def AddAttributes_def AddRoot_def AddSchedule_def New_def
        split: sum.splits)

theorem HashDagMeta_depends_on_attr_and_schedule_witness:
  "HashDagMeta exampleHashing
       (Done (AddAttributes (AddSchedule (AddRoot (New ''dag1'') (Some ''task_a''))
                (3600000000000, 0)) \<lparr>CatchUp = True, Tags = Some [''x'']\<rparr>))
     = HashDagMeta exampleHashing
         (Done (AddSchedule (AddAttributes (New ''dag2'') \<lparr>CatchUp = True, Tags = Some [''x'']\<rparr>)
                  (3600000000000, 0)))
   \<and> fst (HashDagMeta exampleHashing
            (Done (AddSchedule (AddAttributes (New ''dag2'') \<lparr>CatchUp = True, Tags = Some [''x'']\<rparr>)
                  (3600000000000, 0))))
     = ''0x0Tylruoh}]x[:sgat,eurt:pUhctac{''"
  using HashDagMeta_depends_on_attr_and_schedule
          [of "Done (AddAttributes (AddSchedule (AddRoot (New ''dag1'') (Some ''task_a''))
                 (3600000000000, 0)) \<lparr>CatchUp = True, Tags = Some [''x'']\<rparr>)"
              "Done (AddSchedule (AddAttributes (New ''dag2'') \<lparr>CatchUp = True, Tags = Some [''x'']\<rparr>)
                 (3600000000000, 0)) :: (duration \<times> time, string) Dag"
              exampleHashing]
  by (simp add: HashDagMeta_def Done_def AddAttributes_def AddRoot_def AddSchedule_def New_def
        exampleHashing_def exampleMarshal_def sha256_New_def Write_def Sum_nil_def)

text \<open>
  C9. For every DAG whose root is nil, \<open>HashTasks\<close> (whose only result is a string)
  returns the hex encoding of the SHA-256 digest of the literal \<open>NO TASKS\<close>; so any two
  DAGs without a root have the same \<open>HashTasks\<close>.
\<close>

theorem HashTasks_no_root:
  "(Root d = None \<longrightarrow> HashTasks h d = hex_EncodeToString h (sha256_Sum h ''NO TASKS''))
   \<and> (Root d1 = None \<and> Root d2 = None \<longrightarrow> HashTasks h d1 = HashTasks h d2)"
  by (simp add: HashTasks_def sha256_New_def Write_def Sum_nil_def)

theorem HashTasks_no_root_witness:
  "HashTasks exampleHashing (New ''d1'' :: (duration \<times> time, string) Dag) = ''0xSKSAT ON''
   \<and> HashTasks exampleHashing (New ''d1'' :: (duration \<times> time, string) Dag)
     = HashTasks exampleHashing
         (Done (AddAttributes (AddSchedule (New ''s2'') (3600000000000, 0))
                  \<lparr>CatchUp = True, Tags = None\<rparr>) :: (duration \<times> time, string) Dag)"
  using HashTasks_no_root
          [of "New ''d1'' :: (duration \<times> time, string) Dag" exampleHashing
              "New ''d1'' :: (duration \<times> time, string) Dag"
              "Done (AddAttributes (AddSchedule (New ''s2'') (3600000000000, 0))
                  \<lparr>CatchUp = True, Tags = None\<rparr>) :: (duration \<times> time, string) Dag"]
  by (simp add: New_def Done_def AddAttributes_def AddSchedule_def exampleHashing_def
        HashTasks_def sha256_New_def Write_def Sum_nil_def)

section \<open>Properties of the scheduling algorithm\<close>

subsection \<open>Arithmetic of the fixed schedule\<close>

lemma div_bounds:
  fixes a b :: int
  assumes pos: "0 < b"
  shows "(a div b) * b \<le> a" and "a < (a div b + 1) * b"
proof -
  have eq: "b * (a div b) + a mod b = a" by (rule mult_div_mod_eq)
  have m: "0 \<le> a mod b" "a mod b < b" using pos by simp_all
  have c1: "(a div b) * b = b * (a div b)" by (rule mult.commute)
  have c2: "(a div b + 1) * b = b * (a div b) + b" by (simp add: algebra_simps)
  show "(a div b) * b \<le> a" using eq m c1 by linarith
  show "a < (a div b + 1) * b" using eq m c2 by linarith
qed

lemma le_div_of_mult_le:
  fixes a b n :: int
  assumes pos: "0 < b" and le: "n * b \<le> a"
  shows "n \<le> a div b"
proof (rule ccontr)
  assume "\<not> n \<le> a div b"
  then have "(a div b + 1) * b \<le> n * b" using pos by (intro mult_right_mono) auto
  moreover have "a < (a div b + 1) * b" using pos by (rule div_bounds)
  ultimately show False using le by simp
qed

text \<open>
  \<open>skipAhead_spec\<close> is the spec's sentence: what it returns is an occurrence, at or before
  the current time, after the last run, and no occurrence at or before the current time is
  later; it returns nothing only when no occurrence is at or before the current time and
  after the last run.
\<close>

lemma skipAhead_spec_Some:
  assumes pos: "0 < Interval sched"
    and some: "skipAhead_spec sched lastRun currentTime = Some t"
  shows "\<exists>n. t = occurrence sched n" and "t \<le> currentTime" and "lastRun < t"
    and "occurrence sched n \<le> currentTime \<Longrightarrow> occurrence sched n \<le> t"
proof -
  let ?q = "(currentTime - Start sched) div Interval sched"
  from some have t: "t = Start sched + ?q * Interval sched"
    and started: "Start sched \<le> currentTime" and after: "lastRun < t"
    by (auto simp: skipAhead_spec_def Let_def split: if_splits)
  from started pos have "0 \<le> ?q" by (simp add: pos_imp_zdiv_nonneg_iff)
  then have "t = occurrence sched (nat ?q)" using t by (simp add: occurrence_def)
  then show "\<exists>n. t = occurrence sched n" ..
  have "?q * Interval sched \<le> currentTime - Start sched" using pos by (rule div_bounds)
  then show "t \<le> currentTime" using t by simp
  show "lastRun < t" by (rule after)
  show "occurrence sched n \<le> t" if "occurrence sched n \<le> currentTime"
  proof -
    from that have "int n * Interval sched \<le> currentTime - Start sched"
      by (simp add: occurrence_def)
    then have "int n \<le> ?q" using pos by (intro le_div_of_mult_le)
    then have "int n * Interval sched \<le> ?q * Interval sched"
      using pos by (intro mult_right_mono) auto
    then show ?thesis using t by (simp add: occurrence_def)
  qed
qed

lemma skipAhead_spec_None:
  assumes pos: "0 < Interval sched"
    and none: "skipAhead_spec sched lastRun currentTime = None"
  shows "\<not> (occurrence sched n \<le> currentTime \<and> lastRun < occurrence sched n)"
proof
  assume occ: "occurrence sched n \<le> currentTime \<and> lastRun < occurrence sched n"
  let ?q = "(currentTime - Start sched) div Interval sched"
  have "Start sched \<le> occurrence sched n" using pos by (simp add: occurrence_def)
  with occ have started: "Start sched \<le> currentTime" by simp
  from occ have "int n * Interval sched \<le> currentTime - Start sched"
    by (simp add: occurrence_def)
  then have "int n \<le> ?q" using pos by (intro le_div_of_mult_le)
  then have "int n * Interval sched \<le> ?q * Interval sched"
    using pos by (intro mult_right_mono) auto
  then have "occurrence sched n \<le> Start sched + ?q * Interval sched"
    by (simp add: occurrence_def)
  with occ have "lastRun < Start sched + ?q * Interval sched" by simp
  with started none show False by (simp add: skipAhead_spec_def Let_def)
qed

subsection \<open>The store, the map and the fixtures\<close>

lemma dagruns_insertHourlyDagRuns:
  "dagruns (insertHourlyDagRuns NewInMemoryClient dagId startTs n)
     = map (\<lambda>i. \<lparr>DagId = dagId, AtTime = startTs + int i * Hour\<rparr>) (rev [0..<n])"
  by (induction n) (auto simp: NewInMemoryClient_def InsertDagRun_def Hour_def Minute_def Second_def)

lemma ReadDagRuns_insertHourlyDagRuns:
  "ReadDagRuns (insertHourlyDagRuns NewInMemoryClient dagId startTs (Suc n)) dagId 1
     = [\<lparr>DagId = dagId, AtTime = startTs + int n * Hour\<rparr>]"
  unfolding ReadDagRuns_def dagruns_insertHourlyDagRuns by simp

lemma nextScheduleForDagRuns_single:
  "nextScheduleForDagRuns [d] currentTime c (Id_dag d) = Some (nextScheduleForDag c currentTime d)"
  by (simp add: nextScheduleForDagRuns_def)

lemma Id_dag_emptyDag: "Id_dag (emptyDag dagId sched attr) = dagId"
  and Schedule_emptyDag: "Schedule (emptyDag dagId sched attr) = Some sched"
  and Attr_emptyDag: "Attr (emptyDag dagId sched attr) = attr"
  and Root_emptyDag: "Root (emptyDag dagId sched attr) = None"
  by (simp_all add: emptyDag_def Done_def AddAttributes_def AddSchedule_def New_def)

lemma InsertDagRun_first:
  "InsertDagRun NewInMemoryClient dagId atTime
     = (None, \<lparr>dagruns = [\<lparr>DagId = dagId, AtTime = atTime\<rparr>]\<rparr>)"
  by (simp add: InsertDagRun_def NewInMemoryClient_def)

lemma nextScheduleForDagRuns_emptyDag:
  "nextScheduleForDagRuns [emptyDag dagId sched attr] currentTime c dagId
     = Some (case ReadDagRuns c dagId 1 of
               [] \<Rightarrow> Some (StartTime sched)
             | latestDagRun # _ \<Rightarrow>
                 (if CatchUp attr then Some (AtTime latestDagRun + Interval sched)
                  else skipAhead_spec sched (AtTime latestDagRun) currentTime))"
  by (simp add: nextScheduleForDagRuns_def nextScheduleForDag_def
        Id_dag_emptyDag Schedule_emptyDag Attr_emptyDag split: list.splits)

lemma tryScheduleDag_fires:
  assumes "shouldBeSheduled d nextSchedules currentTime = ((True, Some dueAt), nextSchedules')"
    and "\<lparr>DagId = Id_dag d, AtTime = dueAt\<rparr> \<notin> set (dagruns c)"
    and "length (items queue) < capacity queue"
  shows "tryScheduleDag d currentTime queue nextSchedules c
     = (None, queue\<lparr>items := items queue @ [\<lparr>DagId = Id_dag d, AtTime = dueAt\<rparr>]\<rparr>,
        nextSchedules', c\<lparr>dagruns := \<lparr>DagId = Id_dag d, AtTime = dueAt\<rparr> # dagruns c\<rparr>)"
  using assms by (simp add: tryScheduleDag_def InsertDagRun_def Push_def)

lemma tryScheduleDag_not_fires:
  assumes "fst (shouldBeSheduled d nextSchedules currentTime) = (False, None)"
  shows "tryScheduleDag d currentTime queue nextSchedules c
     = (None, queue, snd (shouldBeSheduled d nextSchedules currentTime), c)"
  using assms by (cases "shouldBeSheduled d nextSchedules currentTime")
    (simp add: tryScheduleDag_def)

lemmas fixture_simps =
  Date_2023_October_def Hour_def Minute_def Second_def

subsection \<open>The model on the fixtures of the other tests\<close>

text \<open>
  \<open>TestNextScheduleForDagRunsNoSchedule\<close> expects nil for a DAG without a schedule,
  \<open>TestNextScheduleForDagRunsBeforeStart\<close> expects the start time for DAGs without runs,
  and both expect one entry for each DAG; \<open>TestShouldBeScheduledEmtpyNextMap\<close> expects no
  firing on an empty map. The model agrees.
\<close>

lemma nextScheduleForDag_no_schedule:
  "Schedule d = None \<Longrightarrow> nextScheduleForDag c currentTime d = None"
  by (simp add: nextScheduleForDag_def)

lemma nextScheduleForDag_no_runs:
  "Schedule d = Some sched \<Longrightarrow> ReadDagRuns c (Id_dag d) 1 = [] \<Longrightarrow>
   nextScheduleForDag c currentTime d = Some (StartTime sched)"
  by (simp add: nextScheduleForDag_def)

lemma nextScheduleForDagRuns_snoc:
  "nextScheduleForDagRuns (dags @ [d]) currentTime c
     = (nextScheduleForDagRuns dags currentTime c)
         (Id_dag d \<mapsto> nextScheduleForDag c currentTime d)"
  by (simp add: nextScheduleForDagRuns_def)

lemma dom_nextScheduleForDagRuns:
  "dom (nextScheduleForDagRuns dags currentTime c) = Id_dag ` set dags"
proof (induction dags rule: rev_induct)
  case Nil
  show ?case by (simp add: nextScheduleForDagRuns_def)
next
  case (snoc d dags)
  have "dom ((nextScheduleForDagRuns dags currentTime c)
               (Id_dag d \<mapsto> nextScheduleForDag c currentTime d))
      = insert (Id_dag d) (dom (nextScheduleForDagRuns dags currentTime c))"
    by simp
  with snoc show ?case by (simp only: nextScheduleForDagRuns_snoc) simp
qed

lemma nextScheduleForDagRuns_lookup:
  "distinct (map Id_dag dags) \<Longrightarrow> d \<in> set dags \<Longrightarrow>
   nextScheduleForDagRuns dags currentTime c (Id_dag d)
     = Some (nextScheduleForDag c currentTime d)"
proof (induction dags rule: rev_induct)
  case Nil
  then show ?case by simp
next
  case (snoc x dags)
  show ?case
  proof (cases "d = x")
    case True
    then show ?thesis by (simp add: nextScheduleForDagRuns_snoc)
  next
    case False
    with snoc.prems have mem: "d \<in> set dags" by simp
    from snoc.prems have "Id_dag x \<notin> Id_dag ` set dags" by simp
    with mem have "Id_dag d \<noteq> Id_dag x" by (metis imageI)
    note mem this
    with snoc show ?thesis by (simp add: nextScheduleForDagRuns_snoc)
  qed
qed

lemma shouldBeSheduled_empty_map:
  "shouldBeSheduled d Map.empty currentTime = ((False, None), Map.empty)"
  by (simp add: shouldBeSheduled_def)

subsection \<open>The claims\<close>

text \<open>
  For a DAG without \<open>CatchUp\<close> the spec's rule and two tests differ. With an hourly
  schedule from \<open>T0\<close>, runs at \<open>T0, ..., T0 + 9h\<close> and the current time \<open>T0 + 10h45m\<close>, the
  rule gives \<open>T0 + 10h\<close>, where \<open>TestNextScheduleForDagRunsSimple\<close> expects
  \<open>startTs + (dagRuns + 1) * 1h\<close> with \<open>dagRuns = 10\<close>. With one run at \<open>start\<close> and the
  current time \<open>start + 5m\<close> the rule gives no due time, where
  \<open>TestNextScheduleForDagRunsManyDagsSimple\<close> expects \<open>start + 1h\<close> for the hourly DAG. The
  code that would decide between them is missing.
\<close>

lemma skipAhead_spec_on_TestNextScheduleForDagRunsSimple:
  "nextScheduleForDagRuns
       [emptyDag dagId \<lparr>Interval = 1 * Hour, Start = T0\<rparr> \<lparr>CatchUp = False, Tags = tags\<rparr>]
       (T0 + (10 * Hour + 45 * Minute))
       (insertHourlyDagRuns NewInMemoryClient dagId T0 10) dagId
     = Some (Some (T0 + 10 * Hour))"
  and "T0 + 10 * Hour \<noteq> T0 + (10 + 1) * Hour"
proof -
  have "ReadDagRuns (insertHourlyDagRuns NewInMemoryClient dagId T0 (Suc 9)) dagId 1
      = [\<lparr>DagId = dagId, AtTime = T0 + int 9 * Hour\<rparr>]"
    by (rule ReadDagRuns_insertHourlyDagRuns)
  then show "nextScheduleForDagRuns
       [emptyDag dagId \<lparr>Interval = 1 * Hour, Start = T0\<rparr> \<lparr>CatchUp = False, Tags = tags\<rparr>]
       (T0 + (10 * Hour + 45 * Minute))
       (insertHourlyDagRuns NewInMemoryClient dagId T0 10) dagId
     = Some (Some (T0 + 10 * Hour))"
    by (simp add: nextScheduleForDagRuns_emptyDag skipAhead_spec_def Hour_def Minute_def
        Second_def)
  show "T0 + 10 * Hour \<noteq> T0 + (10 + 1) * Hour"
    by (simp add: Hour_def Minute_def Second_def)
qed

lemma skipAhead_spec_on_TestNextScheduleForDagRunsManyDagsSimple:
  "nextScheduleForDagRuns
       [emptyDag ''dag1'' \<lparr>Interval = 1 * Hour, Start = start\<rparr> \<lparr>CatchUp = False, Tags = None\<rparr>]
       (start + 5 * Minute)
       (snd (InsertDagRun NewInMemoryClient ''dag1'' start)) ''dag1''
     = Some None"
  by (simp add: nextScheduleForDagRuns_emptyDag InsertDagRun_first ReadDagRuns_def
      skipAhead_spec_def Hour_def Minute_def Second_def)

text \<open>
  C2. For a DAG with an hourly schedule starting at \<open>T0\<close>, with \<open>CatchUp\<close> and one recorded
  run at \<open>T0\<close>, \<open>nextScheduleForDagRuns\<close> returns \<open>T0 + 1h\<close> at every current time: with
  \<open>CatchUp\<close> the next due time is the last recorded run's time plus one interval,
  whatever the current time is.
\<close>

theorem catch_up_next_schedule:
  "nextScheduleForDagRuns
       [emptyDag dagId \<lparr>Interval = Hour, Start = T0\<rparr> \<lparr>CatchUp = True, Tags = tags\<rparr>]
       currentTime (snd (InsertDagRun NewInMemoryClient dagId T0)) dagId
     = Some (Some (T0 + Hour))
   \<and> (Schedule d = Some sched \<and> CatchUp (Attr d) \<and> ReadDagRuns c (Id_dag d) 1 = [latestDagRun]
        \<longrightarrow>
      nextScheduleForDagRuns [d] now c (Id_dag d)
        = Some (Some (AtTime latestDagRun + Interval sched)))"
  by (simp add: nextScheduleForDagRuns_single nextScheduleForDagRuns_emptyDag
        nextScheduleForDag_def InsertDagRun_first ReadDagRuns_def)

theorem catch_up_next_schedule_witness:
  "nextScheduleForDagRuns
       [emptyDag ''mock_dag'' \<lparr>Interval = Hour, Start = Date_2023_October 5 12 0 0\<rparr>
          \<lparr>CatchUp = True, Tags = None\<rparr> :: (FixedSchedule, unit) Dag]
       (Date_2023_October 10 10 0 0)
       (snd (InsertDagRun NewInMemoryClient ''mock_dag'' (Date_2023_October 5 12 0 0)))
       ''mock_dag''
     = Some (Some (Date_2023_October 5 13 0 0))"
  using catch_up_next_schedule
    [of "''mock_dag''" "Date_2023_October 5 12 0 0" None "Date_2023_October 10 10 0 0"
        "emptyDag ''mock_dag'' \<lparr>Interval = Hour, Start = Date_2023_October 5 12 0 0\<rparr>
          \<lparr>CatchUp = True, Tags = None\<rparr> :: (FixedSchedule, unit) Dag"
        "\<lparr>Interval = Hour, Start = Date_2023_October 5 12 0 0\<rparr>"
        "snd (InsertDagRun NewInMemoryClient ''mock_dag'' (Date_2023_October 5 12 0 0))"
        "\<lparr>DagId = ''mock_dag'', AtTime = Date_2023_October 5 12 0 0\<rparr>"
        "Date_2023_October 10 10 0 0", where ?'a = unit]
  by (simp add: Id_dag_emptyDag Schedule_emptyDag Attr_emptyDag InsertDagRun_first
        ReadDagRuns_def fixture_simps)

text \<open>
  C3. For every DAG \<open>d\<close>, map \<open>m\<close> and time \<open>t\<close>: \<open>shouldBeSheduled\<close> fires if and only if
  \<open>m\<close> holds a non-nil due time \<open>D\<close> for \<open>d\<close> and \<open>D \<le> t\<close> (so it fires at \<open>t = D\<close>); on
  firing it returns \<open>D\<close> as the due time and advances the entry to \<open>D\<close> plus one interval
  of the DAG's schedule; when it does not fire the map is unchanged; a DAG absent from
  the map or mapped to nil does not fire.
\<close>

theorem shouldBeSheduled_fires_iff_due:
  "(fst (fst (shouldBeSheduled d m t)) \<longleftrightarrow> (\<exists>D. m (Id_dag d) = Some (Some D) \<and> D \<le> t))
   \<and> (m (Id_dag d) = Some (Some D) \<and> D \<le> t \<longrightarrow>
        fst (shouldBeSheduled d m t) = (True, Some D))
   \<and> (m (Id_dag d) = Some (Some D) \<and> D \<le> t \<and> Schedule d = Some sched \<longrightarrow>
        snd (shouldBeSheduled d m t) = m(Id_dag d \<mapsto> Some (D + Interval sched)))
   \<and> (\<not> fst (fst (shouldBeSheduled d m t)) \<longrightarrow>
        shouldBeSheduled d m t = ((False, None), m))
   \<and> (m (Id_dag d) = None \<or> m (Id_dag d) = Some None \<longrightarrow>
        \<not> fst (fst (shouldBeSheduled d m t)))"
  by (auto simp: shouldBeSheduled_def split: option.splits)

theorem shouldBeSheduled_fires_iff_due_witness:
  "shouldBeSheduled
       (emptyDag ''dag1'' \<lparr>Interval = 1 * Hour, Start = Date_2023_October 5 12 0 0\<rparr>
          \<lparr>CatchUp = False, Tags = None\<rparr> :: (FixedSchedule, unit) Dag)
       [''dag1'' \<mapsto> Some (Date_2023_October 5 14 0 0), ''dag4'' \<mapsto> None]
       (Date_2023_October 5 13 59 0)
     = ((False, None),
        [''dag1'' \<mapsto> Some (Date_2023_October 5 14 0 0), ''dag4'' \<mapsto> None])
   \<and> shouldBeSheduled
       (emptyDag ''dag1'' \<lparr>Interval = 1 * Hour, Start = Date_2023_October 5 12 0 0\<rparr>
          \<lparr>CatchUp = False, Tags = None\<rparr> :: (FixedSchedule, unit) Dag)
       [''dag1'' \<mapsto> Some (Date_2023_October 5 14 0 0), ''dag4'' \<mapsto> None]
       (Date_2023_October 5 14 0 1)
     = ((True, Some (Date_2023_October 5 14 0 0)),
        [''dag1'' \<mapsto> Some (Date_2023_October 5 15 0 0), ''dag4'' \<mapsto> None])
   \<and> shouldBeSheduled
       (emptyDag ''dag1'' \<lparr>Interval = 1 * Hour, Start = Date_2023_October 5 12 0 0\<rparr>
          \<lparr>CatchUp = False, Tags = None\<rparr> :: (FixedSchedule, unit) Dag)
       [''dag1'' \<mapsto> Some (Date_2023_October 5 14 0 0), ''dag4'' \<mapsto> None]
       (Date_2023_October 5 14 0 0)
     = ((True, Some (Date_2023_October 5 14 0 0)),
        [''dag1'' \<mapsto> Some (Date_2023_October 5 15 0 0), ''dag4'' \<mapsto> None])
   \<and> shouldBeSheduled (Done (New ''dag4'') :: (FixedSchedule, unit) Dag)
       [''dag1'' \<mapsto> Some (Date_2023_October 5 14 0 0), ''dag4'' \<mapsto> None]
       (Date_2023_October 5 14 0 1)
     = ((False, None),
        [''dag1'' \<mapsto> Some (Date_2023_October 5 14 0 0), ''dag4'' \<mapsto> None])"
proof -
  let ?sched = "\<lparr>Interval = 1 * Hour, Start = Date_2023_October 5 12 0 0\<rparr>"
  let ?d1 = "emptyDag ''dag1'' ?sched \<lparr>CatchUp = False, Tags = None\<rparr>
               :: (FixedSchedule, unit) Dag"
  let ?d2 = "Done (New ''dag4'') :: (FixedSchedule, unit) Dag"
  let ?m = "[''dag1'' \<mapsto> Some (Date_2023_October 5 14 0 0), ''dag4'' \<mapsto> None]"
  note before = shouldBeSheduled_fires_iff_due
    [of ?d1 ?m "Date_2023_October 5 13 59 0" "Date_2023_October 5 14 0 0" ?sched]
  note after = shouldBeSheduled_fires_iff_due
    [of ?d1 ?m "Date_2023_October 5 14 0 1" "Date_2023_October 5 14 0 0" ?sched]
  note exactly = shouldBeSheduled_fires_iff_due
    [of ?d1 ?m "Date_2023_October 5 14 0 0" "Date_2023_October 5 14 0 0" ?sched]
  note unscheduled = shouldBeSheduled_fires_iff_due
    [of ?d2 ?m "Date_2023_October 5 14 0 1" "Date_2023_October 5 14 0 0" ?sched]
  have ids: "Id_dag ?d1 = ''dag1''" "Schedule ?d1 = Some ?sched" "Id_dag ?d2 = ''dag4''"
    by (simp_all add: Id_dag_emptyDag Schedule_emptyDag Done_def New_def)
  have c1: "shouldBeSheduled ?d1 ?m (Date_2023_October 5 13 59 0) = ((False, None), ?m)"
    using before ids by (simp add: fixture_simps prod_eq_iff)
  have c2: "shouldBeSheduled ?d1 ?m (Date_2023_October 5 14 0 1)
      = ((True, Some (Date_2023_October 5 14 0 0)),
         [''dag1'' \<mapsto> Some (Date_2023_October 5 15 0 0), ''dag4'' \<mapsto> None])"
    using after ids by (auto simp: fixture_simps prod_eq_iff)
  have c3: "shouldBeSheduled ?d1 ?m (Date_2023_October 5 14 0 0)
      = ((True, Some (Date_2023_October 5 14 0 0)),
         [''dag1'' \<mapsto> Some (Date_2023_October 5 15 0 0), ''dag4'' \<mapsto> None])"
    using exactly ids by (auto simp: fixture_simps prod_eq_iff)
  have c4: "shouldBeSheduled ?d2 ?m (Date_2023_October 5 14 0 1) = ((False, None), ?m)"
    using unscheduled ids by simp
  from c1 c2 c3 c4 show ?thesis by blast
qed

text \<open>
  C4. \<open>tryScheduleDag\<close> for an hourly DAG that is next due at 14:00, called at 13:00,
  14:00:01, 14:59:59, 15:01:01, 15:02 and 16:30, returns no error and leaves exactly three
  runs in the store and exactly three runs on the queue, those of 14:00, 15:00 and 16:00,
  on the queue in this order. Whenever \<open>shouldBeSheduled\<close> fires (and the store accepts
  the run and the queue has room) the run recorded in the store and the run pushed onto
  the queue are the same; when it does not fire, neither changes.
\<close>

theorem tryScheduleDag_six_time_points:
  "(case tryScheduleDagAt
           (emptyDag ''dag1'' \<lparr>Interval = 1 * Hour, Start = Date_2023_October 5 12 0 0\<rparr>
              \<lparr>CatchUp = False, Tags = None\<rparr>)
           timePoints_TestTryScheduleDagSimple
           (NewSimpleQueue 100, [''dag1'' \<mapsto> Some (Date_2023_October 5 14 0 0)],
            NewInMemoryClient)
    of (errs, queue, nextSchedules, c) \<Rightarrow>
      errs = [None, None, None, None, None, None]
      \<and> Count_dagruns c = 3
      \<and> Size queue = 3
      \<and> items queue = [\<lparr>DagId = ''dag1'', AtTime = Date_2023_October 5 14 0 0\<rparr>,
                       \<lparr>DagId = ''dag1'', AtTime = Date_2023_October 5 15 0 0\<rparr>,
                       \<lparr>DagId = ''dag1'', AtTime = Date_2023_October 5 16 0 0\<rparr>]
      \<and> dagruns c = [\<lparr>DagId = ''dag1'', AtTime = Date_2023_October 5 16 0 0\<rparr>,
                     \<lparr>DagId = ''dag1'', AtTime = Date_2023_October 5 15 0 0\<rparr>,
                     \<lparr>DagId = ''dag1'', AtTime = Date_2023_October 5 14 0 0\<rparr>])
   \<and> (fst (shouldBeSheduled d m t) = (True, Some dueAt)
        \<and> \<lparr>DagId = Id_dag d, AtTime = dueAt\<rparr> \<notin> set (dagruns c')
        \<and> length (items q) < capacity q \<longrightarrow>
      tryScheduleDag d t q m c'
        = (None, q\<lparr>items := items q @ [\<lparr>DagId = Id_dag d, AtTime = dueAt\<rparr>]\<rparr>,
           snd (shouldBeSheduled d m t),
           c'\<lparr>dagruns := \<lparr>DagId = Id_dag d, AtTime = dueAt\<rparr> # dagruns c'\<rparr>))
   \<and> (fst (shouldBeSheduled d m t) = (False, None) \<longrightarrow>
      tryScheduleDag d t q m c' = (None, q, snd (shouldBeSheduled d m t), c'))"
proof (intro conjI impI)
  show "case tryScheduleDagAt
           (emptyDag ''dag1'' \<lparr>Interval = 1 * Hour, Start = Date_2023_October 5 12 0 0\<rparr>
              \<lparr>CatchUp = False, Tags = None\<rparr>)
           timePoints_TestTryScheduleDagSimple
           (NewSimpleQueue 100, [''dag1'' \<mapsto> Some (Date_2023_October 5 14 0 0)],
            NewInMemoryClient)
    of (errs, queue, nextSchedules, c) \<Rightarrow>
      errs = [None, None, None, None, None, None]
      \<and> Count_dagruns c = 3
      \<and> Size queue = 3
      \<and> items queue = [\<lparr>DagId = ''dag1'', AtTime = Date_2023_October 5 14 0 0\<rparr>,
                       \<lparr>DagId = ''dag1'', AtTime = Date_2023_October 5 15 0 0\<rparr>,
                       \<lparr>DagId = ''dag1'', AtTime = Date_2023_October 5 16 0 0\<rparr>]
      \<and> dagruns c = [\<lparr>DagId = ''dag1'', AtTime = Date_2023_October 5 16 0 0\<rparr>,
                     \<lparr>DagId = ''dag1'', AtTime = Date_2023_October 5 15 0 0\<rparr>,
                     \<lparr>DagId = ''dag1'', AtTime = Date_2023_October 5 14 0 0\<rparr>]"
    by (simp add: timePoints_TestTryScheduleDagSimple_def tryScheduleDag_def
        shouldBeSheduled_def InsertDagRun_def Push_def NewSimpleQueue_def NewInMemoryClient_def
        Count_dagruns_def Size_def Id_dag_emptyDag Schedule_emptyDag fixture_simps)
next
  assume "fst (shouldBeSheduled d m t) = (True, Some dueAt)
        \<and> \<lparr>DagId = Id_dag d, AtTime = dueAt\<rparr> \<notin> set (dagruns c')
        \<and> length (items q) < capacity q"
  then show "tryScheduleDag d t q m c'
        = (None, q\<lparr>items := items q @ [\<lparr>DagId = Id_dag d, AtTime = dueAt\<rparr>]\<rparr>,
           snd (shouldBeSheduled d m t),
           c'\<lparr>dagruns := \<lparr>DagId = Id_dag d, AtTime = dueAt\<rparr> # dagruns c'\<rparr>)"
    by (intro tryScheduleDag_fires) (auto simp: prod_eq_iff)
next
  assume "fst (shouldBeSheduled d m t) = (False, None)"
  then show "tryScheduleDag d t q m c' = (None, q, snd (shouldBeSheduled d m t), c')"
    by (rule tryScheduleDag_not_fires)
qed

theorem tryScheduleDag_six_time_points_witness:
  "tryScheduleDag
       (emptyDag ''dag1'' \<lparr>Interval = 1 * Hour, Start = Date_2023_October 5 12 0 0\<rparr>
          \<lparr>CatchUp = False, Tags = None\<rparr> :: (FixedSchedule, unit) Dag)
       (Date_2023_October 5 14 0 1) (NewSimpleQueue 100)
       [''dag1'' \<mapsto> Some (Date_2023_October 5 14 0 0)] NewInMemoryClient
     = (None,
        \<lparr>items = [\<lparr>DagId = ''dag1'', AtTime = Date_2023_October 5 14 0 0\<rparr>], capacity = 100\<rparr>,
        [''dag1'' \<mapsto> Some (Date_2023_October 5 15 0 0)],
        \<lparr>dagruns = [\<lparr>DagId = ''dag1'', AtTime = Date_2023_October 5 14 0 0\<rparr>]\<rparr>)
   \<and> tryScheduleDag
       (emptyDag ''dag1'' \<lparr>Interval = 1 * Hour, Start = Date_2023_October 5 12 0 0\<rparr>
          \<lparr>CatchUp = False, Tags = None\<rparr> :: (FixedSchedule, unit) Dag)
       (Date_2023_October 5 13 0 0) (NewSimpleQueue 100)
       [''dag1'' \<mapsto> Some (Date_2023_October 5 14 0 0)] NewInMemoryClient
     = (None, NewSimpleQueue 100, [''dag1'' \<mapsto> Some (Date_2023_October 5 14 0 0)],
        NewInMemoryClient)"
  using tryScheduleDag_six_time_points
    [of "emptyDag ''dag1'' \<lparr>Interval = 1 * Hour, Start = Date_2023_October 5 12 0 0\<rparr>
          \<lparr>CatchUp = False, Tags = None\<rparr> :: (FixedSchedule, unit) Dag"
        "[''dag1'' \<mapsto> Some (Date_2023_October 5 14 0 0)]"
        "Date_2023_October 5 14 0 1" "Date_2023_October 5 14 0 0"
        NewInMemoryClient "NewSimpleQueue 100", where ?'a = unit]
    tryScheduleDag_six_time_points
    [of "emptyDag ''dag1'' \<lparr>Interval = 1 * Hour, Start = Date_2023_October 5 12 0 0\<rparr>
          \<lparr>CatchUp = False, Tags = None\<rparr> :: (FixedSchedule, unit) Dag"
        "[''dag1'' \<mapsto> Some (Date_2023_October 5 14 0 0)]"
        "Date_2023_October 5 13 0 0" "Date_2023_October 5 14 0 0"
        NewInMemoryClient "NewSimpleQueue 100", where ?'a = unit]
  by (simp add: shouldBeSheduled_def Id_dag_emptyDag Schedule_emptyDag NewSimpleQueue_def
        NewInMemoryClient_def fixture_simps)

end
